theory Spec2Isabelle
  imports Main
begin

section \<open>Job state controllers of the CodeWhisperer models\<close>

text \<open>
  The classes \<open>CodeScanState\<close> and \<open>TransformByQState\<close> hold the client-side state of
  a security scan and of a code transformation job. Each object is a record of its private
  fields; a method that assigns a field takes the object and returns the updated one, a
  method that only reads is a function of the object.
\<close>

subsection \<open>Collaborators imported by the source\<close>

text \<open>
  Modelled from the spec: \<open>getIcon\<close> (imported from \<open>shared/icons\<close>) is not among the
  source files. The spec describes the derived icon as an icon key, so an icon is
  represented by the key it was requested with.
\<close>

datatype Icon = Icon (iconKey: string)

definition getIcon :: "string \<Rightarrow> Icon" where
  "getIcon key = Icon key"

text \<open>
  Modelled from the spec: the base class \<open>ToolkitError\<close> (imported from
  \<open>shared/errors\<close>) is not among the source files. The spec describes the outcome as a
  message together with a \<open>cancelled\<close> marker and no other payload; the constructor takes
  the message and an information object and keeps both.
\<close>

record ErrorInformation =
  info_cancelled :: bool

record ToolkitError =
  message :: string
  cancelled :: bool

definition ToolkitError_new :: "string \<Rightarrow> ErrorInformation \<Rightarrow> ToolkitError" where
  "ToolkitError_new msg info = \<lparr>message = msg, cancelled = info_cancelled info\<rparr>"

subsection \<open>Security scan\<close>

datatype CodeScanStatus =
    CodeScanStatus_NotStarted
  | CodeScanStatus_Running
  | CodeScanStatus_Cancelling

record CodeScanState =
  codeScanState :: CodeScanStatus

definition CodeScanState_new :: CodeScanState where
  "CodeScanState_new = \<lparr>codeScanState = CodeScanStatus_NotStarted\<rparr>"

definition CodeScanState_isNotStarted :: "CodeScanState \<Rightarrow> bool" where
  "CodeScanState_isNotStarted this = (codeScanState this = CodeScanStatus_NotStarted)"

definition CodeScanState_isRunning :: "CodeScanState \<Rightarrow> bool" where
  "CodeScanState_isRunning this = (codeScanState this = CodeScanStatus_Running)"

definition CodeScanState_isCancelling :: "CodeScanState \<Rightarrow> bool" where
  "CodeScanState_isCancelling this = (codeScanState this = CodeScanStatus_Cancelling)"

definition CodeScanState_setToNotStarted :: "CodeScanState \<Rightarrow> CodeScanState" where
  "CodeScanState_setToNotStarted this = this\<lparr>codeScanState := CodeScanStatus_NotStarted\<rparr>"

definition CodeScanState_setToCancelling :: "CodeScanState \<Rightarrow> CodeScanState" where
  "CodeScanState_setToCancelling this = this\<lparr>codeScanState := CodeScanStatus_Cancelling\<rparr>"

definition CodeScanState_setToRunning :: "CodeScanState \<Rightarrow> CodeScanState" where
  "CodeScanState_setToRunning this = this\<lparr>codeScanState := CodeScanStatus_Running\<rparr>"

definition CodeScanState_getPrefixTextForButton :: "CodeScanState \<Rightarrow> string" where
  "CodeScanState_getPrefixTextForButton this =
     (case codeScanState this of
        CodeScanStatus_NotStarted \<Rightarrow> ''Run''
      | CodeScanStatus_Running \<Rightarrow> ''Stop''
      | CodeScanStatus_Cancelling \<Rightarrow> ''Stopping'')"

definition CodeScanState_getIconForButton :: "CodeScanState \<Rightarrow> Icon" where
  "CodeScanState_getIconForButton this =
     (case codeScanState this of
        CodeScanStatus_NotStarted \<Rightarrow> getIcon ''vscode-debug-alt-small''
      | CodeScanStatus_Running \<Rightarrow> getIcon ''vscode-stop-circle''
      | CodeScanStatus_Cancelling \<Rightarrow> getIcon ''vscode-icons:loading~spin'')"

definition CodeScanStoppedError_new :: ToolkitError where
  "CodeScanStoppedError_new =
     ToolkitError_new ''Security scan stopped by user.'' \<lparr>info_cancelled = True\<rparr>"

subsection \<open>Transformation job\<close>

datatype TransformByQStatus =
    TransformByQStatus_NotStarted
  | TransformByQStatus_Running
  | TransformByQStatus_Cancelled
  | TransformByQStatus_Failed
  | TransformByQStatus_Succeeded
  | TransformByQStatus_PartiallySucceeded

datatype TransformByQReviewStatus =
    TransformByQReviewStatus_NotStarted
  | TransformByQReviewStatus_PreparingReview
  | TransformByQReviewStatus_InReview

datatype JDKVersion = JDK8 | JDK11 | JDK17

text \<open>The string each member of the enumeration stands for.\<close>

fun JDKVersion_value :: "JDKVersion \<Rightarrow> string" where
  "JDKVersion_value JDK8 = ''8''"
| "JDKVersion_value JDK11 = ''11''"
| "JDKVersion_value JDK17 = ''17''"

record TransformByQState =
  transformByQState :: TransformByQStatus
  projectName :: string
  projectPath :: string
  jobId :: string
  sourceJDKVersion :: JDKVersion
  targetJDKVersion :: JDKVersion
  planFilePath :: string
  summaryFilePath :: string
  polledJobStatus :: string
  jobFailureReason :: string

definition TransformByQState_new :: TransformByQState where
  "TransformByQState_new =
     \<lparr>transformByQState = TransformByQStatus_NotStarted,
      projectName = '''',
      projectPath = '''',
      jobId = '''',
      sourceJDKVersion = JDK8,
      targetJDKVersion = JDK17,
      planFilePath = '''',
      summaryFilePath = '''',
      polledJobStatus = '''',
      jobFailureReason = ''''\<rparr>"

definition TransformByQState_isNotStarted :: "TransformByQState \<Rightarrow> bool" where
  "TransformByQState_isNotStarted this =
     (transformByQState this = TransformByQStatus_NotStarted)"

definition TransformByQState_isRunning :: "TransformByQState \<Rightarrow> bool" where
  "TransformByQState_isRunning this =
     (transformByQState this = TransformByQStatus_Running)"

definition TransformByQState_isCancelled :: "TransformByQState \<Rightarrow> bool" where
  "TransformByQState_isCancelled this =
     (transformByQState this = TransformByQStatus_Cancelled)"

definition TransformByQState_isFailed :: "TransformByQState \<Rightarrow> bool" where
  "TransformByQState_isFailed this =
     (transformByQState this = TransformByQStatus_Failed)"

definition TransformByQState_isSucceeded :: "TransformByQState \<Rightarrow> bool" where
  "TransformByQState_isSucceeded this =
     (transformByQState this = TransformByQStatus_Succeeded)"

definition TransformByQState_isPartiallySucceeded :: "TransformByQState \<Rightarrow> bool" where
  "TransformByQState_isPartiallySucceeded this =
     (transformByQState this = TransformByQStatus_PartiallySucceeded)"

definition TransformByQState_getProjectName :: "TransformByQState \<Rightarrow> string" where
  "TransformByQState_getProjectName this = projectName this"

definition TransformByQState_getProjectPath :: "TransformByQState \<Rightarrow> string" where
  "TransformByQState_getProjectPath this = projectPath this"

definition TransformByQState_getJobId :: "TransformByQState \<Rightarrow> string" where
  "TransformByQState_getJobId this = jobId this"

definition TransformByQState_getSourceJDKVersion :: "TransformByQState \<Rightarrow> JDKVersion" where
  "TransformByQState_getSourceJDKVersion this = sourceJDKVersion this"

definition TransformByQState_getTargetJDKVersion :: "TransformByQState \<Rightarrow> JDKVersion" where
  "TransformByQState_getTargetJDKVersion this = targetJDKVersion this"

definition TransformByQState_getStatus :: "TransformByQState \<Rightarrow> TransformByQStatus" where
  "TransformByQState_getStatus this = transformByQState this"

definition TransformByQState_getPolledJobStatus :: "TransformByQState \<Rightarrow> string" where
  "TransformByQState_getPolledJobStatus this = polledJobStatus this"

definition TransformByQState_getPlanFilePath :: "TransformByQState \<Rightarrow> string" where
  "TransformByQState_getPlanFilePath this = planFilePath this"

definition TransformByQState_getSummaryFilePath :: "TransformByQState \<Rightarrow> string" where
  "TransformByQState_getSummaryFilePath this = summaryFilePath this"

definition TransformByQState_getJobFailureReason :: "TransformByQState \<Rightarrow> string" where
  "TransformByQState_getJobFailureReason this = jobFailureReason this"

definition TransformByQState_setToNotStarted :: "TransformByQState \<Rightarrow> TransformByQState" where
  "TransformByQState_setToNotStarted this =
     this\<lparr>transformByQState := TransformByQStatus_NotStarted\<rparr>"

definition TransformByQState_setToRunning :: "TransformByQState \<Rightarrow> TransformByQState" where
  "TransformByQState_setToRunning this =
     this\<lparr>transformByQState := TransformByQStatus_Running\<rparr>"

definition TransformByQState_setToCancelled :: "TransformByQState \<Rightarrow> TransformByQState" where
  "TransformByQState_setToCancelled this =
     this\<lparr>transformByQState := TransformByQStatus_Cancelled\<rparr>"

definition TransformByQState_setToFailed :: "TransformByQState \<Rightarrow> TransformByQState" where
  "TransformByQState_setToFailed this =
     this\<lparr>transformByQState := TransformByQStatus_Failed\<rparr>"

definition TransformByQState_setToSucceeded :: "TransformByQState \<Rightarrow> TransformByQState" where
  "TransformByQState_setToSucceeded this =
     this\<lparr>transformByQState := TransformByQStatus_Succeeded\<rparr>"

definition TransformByQState_setToPartiallySucceeded ::
  "TransformByQState \<Rightarrow> TransformByQState" where
  "TransformByQState_setToPartiallySucceeded this =
     this\<lparr>transformByQState := TransformByQStatus_PartiallySucceeded\<rparr>"

definition TransformByQState_setProjectName ::
  "string \<Rightarrow> TransformByQState \<Rightarrow> TransformByQState" where
  "TransformByQState_setProjectName name this = this\<lparr>projectName := name\<rparr>"

definition TransformByQState_setProjectPath ::
  "string \<Rightarrow> TransformByQState \<Rightarrow> TransformByQState" where
  "TransformByQState_setProjectPath path this = this\<lparr>projectPath := path\<rparr>"

definition TransformByQState_setJobId ::
  "string \<Rightarrow> TransformByQState \<Rightarrow> TransformByQState" where
  "TransformByQState_setJobId ident this = this\<lparr>jobId := ident\<rparr>"

definition TransformByQState_setSourceJDKVersionToJDK8 ::
  "TransformByQState \<Rightarrow> TransformByQState" where
  "TransformByQState_setSourceJDKVersionToJDK8 this = this\<lparr>sourceJDKVersion := JDK8\<rparr>"

definition TransformByQState_setSourceJDKVersionToJDK11 ::
  "TransformByQState \<Rightarrow> TransformByQState" where
  "TransformByQState_setSourceJDKVersionToJDK11 this = this\<lparr>sourceJDKVersion := JDK11\<rparr>"

definition TransformByQState_setTargetJDKVersionToJDK17 ::
  "TransformByQState \<Rightarrow> TransformByQState" where
  "TransformByQState_setTargetJDKVersionToJDK17 this = this\<lparr>targetJDKVersion := JDK17\<rparr>"

definition TransformByQState_setPlanFilePath ::
  "string \<Rightarrow> TransformByQState \<Rightarrow> TransformByQState" where
  "TransformByQState_setPlanFilePath filePath this = this\<lparr>planFilePath := filePath\<rparr>"

definition TransformByQState_setPolledJobStatus ::
  "string \<Rightarrow> TransformByQState \<Rightarrow> TransformByQState" where
  "TransformByQState_setPolledJobStatus status this = this\<lparr>polledJobStatus := status\<rparr>"

definition TransformByQState_setSummaryFilePath ::
  "string \<Rightarrow> TransformByQState \<Rightarrow> TransformByQState" where
  "TransformByQState_setSummaryFilePath filePath this = this\<lparr>summaryFilePath := filePath\<rparr>"

definition TransformByQState_setJobFailureReason ::
  "string \<Rightarrow> TransformByQState \<Rightarrow> TransformByQState" where
  "TransformByQState_setJobFailureReason reason this = this\<lparr>jobFailureReason := reason\<rparr>"

definition TransformByQState_getPrefixTextForButton :: "TransformByQState \<Rightarrow> string" where
  "TransformByQState_getPrefixTextForButton this =
     (case transformByQState this of
        TransformByQStatus_NotStarted \<Rightarrow> ''Run''
      | TransformByQStatus_Cancelled \<Rightarrow> ''Stopping''
      | _ \<Rightarrow> ''Stop'')"

definition TransformByQState_getIconForButton :: "TransformByQState \<Rightarrow> Icon" where
  "TransformByQState_getIconForButton this =
     (case transformByQState this of
        TransformByQStatus_NotStarted \<Rightarrow> getIcon ''vscode-play''
      | _ \<Rightarrow> getIcon ''vscode-stop-circle'')"

definition TransformByQStoppedError_new :: ToolkitError where
  "TransformByQStoppedError_new =
     ToolkitError_new ''Transform by Q stopped by user.'' \<lparr>info_cancelled = True\<rparr>"

subsection \<open>Sequences of transition calls\<close>

text \<open>A call of one of the transition setters of the scan controller, and its effect.\<close>

datatype CodeScanTransition =
    Scan_setToNotStarted
  | Scan_setToCancelling
  | Scan_setToRunning

fun CodeScanState_transition :: "CodeScanTransition \<Rightarrow> CodeScanState \<Rightarrow> CodeScanState" where
  "CodeScanState_transition Scan_setToNotStarted = CodeScanState_setToNotStarted"
| "CodeScanState_transition Scan_setToCancelling = CodeScanState_setToCancelling"
| "CodeScanState_transition Scan_setToRunning = CodeScanState_setToRunning"

text \<open>The status a transition setter is named after.\<close>

fun CodeScanTransition_target :: "CodeScanTransition \<Rightarrow> CodeScanStatus" where
  "CodeScanTransition_target Scan_setToNotStarted = CodeScanStatus_NotStarted"
| "CodeScanTransition_target Scan_setToCancelling = CodeScanStatus_Cancelling"
| "CodeScanTransition_target Scan_setToRunning = CodeScanStatus_Running"

text \<open>Calls made one after the other, the head of the list first.\<close>

fun CodeScanState_transitions ::
  "CodeScanTransition list \<Rightarrow> CodeScanState \<Rightarrow> CodeScanState" where
  "CodeScanState_transitions [] this = this"
| "CodeScanState_transitions (c # cs) this =
     CodeScanState_transitions cs (CodeScanState_transition c this)"

datatype TransformByQTransition =
    Transform_setToNotStarted
  | Transform_setToRunning
  | Transform_setToCancelled
  | Transform_setToFailed
  | Transform_setToSucceeded
  | Transform_setToPartiallySucceeded

fun TransformByQState_transition ::
  "TransformByQTransition \<Rightarrow> TransformByQState \<Rightarrow> TransformByQState" where
  "TransformByQState_transition Transform_setToNotStarted = TransformByQState_setToNotStarted"
| "TransformByQState_transition Transform_setToRunning = TransformByQState_setToRunning"
| "TransformByQState_transition Transform_setToCancelled = TransformByQState_setToCancelled"
| "TransformByQState_transition Transform_setToFailed = TransformByQState_setToFailed"
| "TransformByQState_transition Transform_setToSucceeded = TransformByQState_setToSucceeded"
| "TransformByQState_transition Transform_setToPartiallySucceeded =
     TransformByQState_setToPartiallySucceeded"

fun TransformByQTransition_target :: "TransformByQTransition \<Rightarrow> TransformByQStatus" where
  "TransformByQTransition_target Transform_setToNotStarted = TransformByQStatus_NotStarted"
| "TransformByQTransition_target Transform_setToRunning = TransformByQStatus_Running"
| "TransformByQTransition_target Transform_setToCancelled = TransformByQStatus_Cancelled"
| "TransformByQTransition_target Transform_setToFailed = TransformByQStatus_Failed"
| "TransformByQTransition_target Transform_setToSucceeded = TransformByQStatus_Succeeded"
| "TransformByQTransition_target Transform_setToPartiallySucceeded =
     TransformByQStatus_PartiallySucceeded"

fun TransformByQState_transitions ::
  "TransformByQTransition list \<Rightarrow> TransformByQState \<Rightarrow> TransformByQState" where
  "TransformByQState_transitions [] this = this"
| "TransformByQState_transitions (c # cs) this =
     TransformByQState_transitions cs (TransformByQState_transition c this)"

subsection \<open>Every state-changing call of the transformation controller\<close>

text \<open>
  The public methods of \<open>TransformByQState\<close> that assign a field: the six transition
  setters and the ten metadata setters, three of which take no argument.
\<close>

datatype TransformByQCall =
    Call_transition TransformByQTransition
  | Call_setProjectName string
  | Call_setProjectPath string
  | Call_setJobId string
  | Call_setSourceJDKVersionToJDK8
  | Call_setSourceJDKVersionToJDK11
  | Call_setTargetJDKVersionToJDK17
  | Call_setPlanFilePath string
  | Call_setPolledJobStatus string
  | Call_setSummaryFilePath string
  | Call_setJobFailureReason string

fun TransformByQState_call :: "TransformByQCall \<Rightarrow> TransformByQState \<Rightarrow> TransformByQState" where
  "TransformByQState_call (Call_transition t) = TransformByQState_transition t"
| "TransformByQState_call (Call_setProjectName name) = TransformByQState_setProjectName name"
| "TransformByQState_call (Call_setProjectPath path) = TransformByQState_setProjectPath path"
| "TransformByQState_call (Call_setJobId ident) = TransformByQState_setJobId ident"
| "TransformByQState_call Call_setSourceJDKVersionToJDK8 =
     TransformByQState_setSourceJDKVersionToJDK8"
| "TransformByQState_call Call_setSourceJDKVersionToJDK11 =
     TransformByQState_setSourceJDKVersionToJDK11"
| "TransformByQState_call Call_setTargetJDKVersionToJDK17 =
     TransformByQState_setTargetJDKVersionToJDK17"
| "TransformByQState_call (Call_setPlanFilePath filePath) =
     TransformByQState_setPlanFilePath filePath"
| "TransformByQState_call (Call_setPolledJobStatus status) =
     TransformByQState_setPolledJobStatus status"
| "TransformByQState_call (Call_setSummaryFilePath filePath) =
     TransformByQState_setSummaryFilePath filePath"
| "TransformByQState_call (Call_setJobFailureReason reason) =
     TransformByQState_setJobFailureReason reason"

fun TransformByQState_calls ::
  "TransformByQCall list \<Rightarrow> TransformByQState \<Rightarrow> TransformByQState" where
  "TransformByQState_calls [] this = this"
| "TransformByQState_calls (c # cs) this =
     TransformByQState_calls cs (TransformByQState_call c this)"

subsection \<open>Calls of the presentation methods\<close>

text \<open>
  A call of a method returns a value and leaves an object behind. The bodies of the four
  presentation methods contain no assignment, so the object left behind is the receiver.
\<close>

definition CodeScanState_getPrefixTextForButton_call ::
  "CodeScanState \<Rightarrow> string \<times> CodeScanState" where
  "CodeScanState_getPrefixTextForButton_call this =
     (CodeScanState_getPrefixTextForButton this, this)"

definition CodeScanState_getIconForButton_call ::
  "CodeScanState \<Rightarrow> Icon \<times> CodeScanState" where
  "CodeScanState_getIconForButton_call this = (CodeScanState_getIconForButton this, this)"

definition TransformByQState_getPrefixTextForButton_call ::
  "TransformByQState \<Rightarrow> string \<times> TransformByQState" where
  "TransformByQState_getPrefixTextForButton_call this =
     (TransformByQState_getPrefixTextForButton this, this)"

definition TransformByQState_getIconForButton_call ::
  "TransformByQState \<Rightarrow> Icon \<times> TransformByQState" where
  "TransformByQState_getIconForButton_call this =
     (TransformByQState_getIconForButton this, this)"

subsection \<open>The classes of cancellation signals\<close>

text \<open>The two classes of the source that extend \<open>ToolkitError\<close>, and their constructors.\<close>

datatype StoppedError = CodeScanStoppedError | TransformByQStoppedError

fun StoppedError_new :: "StoppedError \<Rightarrow> ToolkitError" where
  "StoppedError_new CodeScanStoppedError = CodeScanStoppedError_new"
| "StoppedError_new TransformByQStoppedError = TransformByQStoppedError_new"

subsection \<open>Order of the platform versions\<close>

text \<open>The number a string of decimal digits denotes, and the number of a version.\<close>

definition digit_value :: "char \<Rightarrow> nat" where
  "digit_value c = of_char c - 48"

fun decimal_value :: "nat \<Rightarrow> string \<Rightarrow> nat" where
  "decimal_value acc [] = acc"
| "decimal_value acc (c # cs) = decimal_value (10 * acc + digit_value c) cs"

definition JDKVersion_number :: "JDKVersion \<Rightarrow> nat" where
  "JDKVersion_number v = decimal_value 0 (JDKVersion_value v)"

subsection \<open>Job state and review status side by side\<close>

text \<open>
  Modelled from the spec: the holder of the review status is not among the source files
  (the enumeration \<open>TransformByQReviewStatus\<close> is declared, and no field of
  \<open>TransformByQState\<close> has that type). The spec describes the review status as a tag
  tracked separately from the job state and driven by a separate call path; a configuration
  is the job controller together with that tag, and a method of the controller acts on the
  controller.
\<close>

record TransformConfiguration =
  controller :: TransformByQState
  reviewStatus :: TransformByQReviewStatus

definition TransformConfiguration_setToSucceeded ::
  "TransformConfiguration \<Rightarrow> TransformConfiguration" where
  "TransformConfiguration_setToSucceeded conf =
     conf\<lparr>controller := TransformByQState_setToSucceeded (controller conf)\<rparr>"

subsection \<open>Counting the predicates that hold\<close>

definition count_true :: "bool list \<Rightarrow> nat" where
  "count_true bs = length (filter (\<lambda>b. b) bs)"

section \<open>Properties\<close>

subsection \<open>Helper facts\<close>

lemmas CodeScanState_defs =
  CodeScanState_isNotStarted_def CodeScanState_isRunning_def CodeScanState_isCancelling_def
  CodeScanState_setToNotStarted_def CodeScanState_setToCancelling_def
  CodeScanState_setToRunning_def

lemmas TransformByQState_predicate_defs =
  TransformByQState_isNotStarted_def TransformByQState_isRunning_def
  TransformByQState_isCancelled_def TransformByQState_isFailed_def
  TransformByQState_isSucceeded_def TransformByQState_isPartiallySucceeded_def

lemmas TransformByQState_getter_defs =
  TransformByQState_getProjectName_def TransformByQState_getProjectPath_def
  TransformByQState_getJobId_def TransformByQState_getSourceJDKVersion_def
  TransformByQState_getTargetJDKVersion_def TransformByQState_getStatus_def
  TransformByQState_getPolledJobStatus_def TransformByQState_getPlanFilePath_def
  TransformByQState_getSummaryFilePath_def TransformByQState_getJobFailureReason_def

lemmas TransformByQState_transition_defs =
  TransformByQState_setToNotStarted_def TransformByQState_setToRunning_def
  TransformByQState_setToCancelled_def TransformByQState_setToFailed_def
  TransformByQState_setToSucceeded_def TransformByQState_setToPartiallySucceeded_def

lemmas TransformByQState_setter_defs =
  TransformByQState_setProjectName_def TransformByQState_setProjectPath_def
  TransformByQState_setJobId_def TransformByQState_setSourceJDKVersionToJDK8_def
  TransformByQState_setSourceJDKVersionToJDK11_def
  TransformByQState_setTargetJDKVersionToJDK17_def TransformByQState_setPlanFilePath_def
  TransformByQState_setPolledJobStatus_def TransformByQState_setSummaryFilePath_def
  TransformByQState_setJobFailureReason_def

lemmas presentation_defs =
  CodeScanState_getPrefixTextForButton_def CodeScanState_getIconForButton_def
  TransformByQState_getPrefixTextForButton_def TransformByQState_getIconForButton_def

lemma TransformByQState_calls_append:
  "TransformByQState_calls (cs @ ds) this =
     TransformByQState_calls ds (TransformByQState_calls cs this)"
  by (induction cs arbitrary: this) simp_all

lemma JDKVersion_numbers:
  "JDKVersion_number JDK8 = 8" "JDKVersion_number JDK11 = 11" "JDKVersion_number JDK17 = 17"
  by (simp_all add: JDKVersion_number_def digit_value_def)

lemma CodeScanState_transitions_append:
  "CodeScanState_transitions (cs @ ds) this =
     CodeScanState_transitions ds (CodeScanState_transitions cs this)"
  by (induction cs arbitrary: this) simp_all

lemma TransformByQState_transitions_append:
  "TransformByQState_transitions (cs @ ds) this =
     TransformByQState_transitions ds (TransformByQState_transitions cs this)"
  by (induction cs arbitrary: this) simp_all

lemma CodeScanState_transition_status:
  "codeScanState (CodeScanState_transition c this) = CodeScanTransition_target c"
  by (cases c)
     (simp_all add: CodeScanState_setToNotStarted_def CodeScanState_setToCancelling_def
        CodeScanState_setToRunning_def)

lemma TransformByQState_transition_status:
  "transformByQState (TransformByQState_transition c this) = TransformByQTransition_target c"
  by (cases c)
     (simp_all add: TransformByQState_setToNotStarted_def TransformByQState_setToRunning_def
        TransformByQState_setToCancelled_def TransformByQState_setToFailed_def
        TransformByQState_setToSucceeded_def TransformByQState_setToPartiallySucceeded_def)

subsection \<open>Transitions overwrite the state\<close>

text \<open>
  C1. After any sequence of transition setters, from any starting object, the status read
  back is the target of the last setter called, whatever was called before it: for the scan
  controller each predicate answers whether the last target is its status; for the
  transformation controller \<open>getStatus\<close> returns the last target and each predicate
  answers accordingly. In the scan scenario, \<open>isRunning\<close> holds after \<open>setToRunning\<close>;
  after \<open>setToCancelling\<close> \<open>isCancelling\<close> holds and \<open>isRunning\<close> does not; after
  \<open>setToNotStarted\<close> \<open>isNotStarted\<close> holds.
\<close>

theorem C1_last_transition_wins:
  "CodeScanState_isNotStarted (CodeScanState_transitions (cs @ [c]) scan)
     = (CodeScanTransition_target c = CodeScanStatus_NotStarted)
   \<and> CodeScanState_isRunning (CodeScanState_transitions (cs @ [c]) scan)
     = (CodeScanTransition_target c = CodeScanStatus_Running)
   \<and> CodeScanState_isCancelling (CodeScanState_transitions (cs @ [c]) scan)
     = (CodeScanTransition_target c = CodeScanStatus_Cancelling)
   \<and> TransformByQState_getStatus (TransformByQState_transitions (ts @ [t]) job)
     = TransformByQTransition_target t
   \<and> TransformByQState_isNotStarted (TransformByQState_transitions (ts @ [t]) job)
     = (TransformByQTransition_target t = TransformByQStatus_NotStarted)
   \<and> TransformByQState_isRunning (TransformByQState_transitions (ts @ [t]) job)
     = (TransformByQTransition_target t = TransformByQStatus_Running)
   \<and> TransformByQState_isCancelled (TransformByQState_transitions (ts @ [t]) job)
     = (TransformByQTransition_target t = TransformByQStatus_Cancelled)
   \<and> TransformByQState_isFailed (TransformByQState_transitions (ts @ [t]) job)
     = (TransformByQTransition_target t = TransformByQStatus_Failed)
   \<and> TransformByQState_isSucceeded (TransformByQState_transitions (ts @ [t]) job)
     = (TransformByQTransition_target t = TransformByQStatus_Succeeded)
   \<and> TransformByQState_isPartiallySucceeded (TransformByQState_transitions (ts @ [t]) job)
     = (TransformByQTransition_target t = TransformByQStatus_PartiallySucceeded)
   \<and> CodeScanState_isRunning (CodeScanState_setToRunning scan)
   \<and> CodeScanState_isCancelling (CodeScanState_setToCancelling (CodeScanState_setToRunning scan))
   \<and> \<not> CodeScanState_isRunning (CodeScanState_setToCancelling (CodeScanState_setToRunning scan))
   \<and> CodeScanState_isNotStarted
       (CodeScanState_setToNotStarted
         (CodeScanState_setToCancelling (CodeScanState_setToRunning scan)))"
proof -
  have scan_last:
    "codeScanState (CodeScanState_transitions (cs @ [c]) scan) = CodeScanTransition_target c"
    by (simp add: CodeScanState_transitions_append CodeScanState_transition_status)
  have job_last:
    "transformByQState (TransformByQState_transitions (ts @ [t]) job)
       = TransformByQTransition_target t"
    by (simp add: TransformByQState_transitions_append TransformByQState_transition_status)
  have scenario:
    "CodeScanState_isRunning (CodeScanState_setToRunning scan)
     \<and> CodeScanState_isCancelling (CodeScanState_setToCancelling (CodeScanState_setToRunning scan))
     \<and> \<not> CodeScanState_isRunning (CodeScanState_setToCancelling (CodeScanState_setToRunning scan))
     \<and> CodeScanState_isNotStarted
         (CodeScanState_setToNotStarted
           (CodeScanState_setToCancelling (CodeScanState_setToRunning scan)))"
    by (simp add: CodeScanState_defs)
  show ?thesis
    unfolding CodeScanState_isNotStarted_def CodeScanState_isRunning_def
      CodeScanState_isCancelling_def TransformByQState_getStatus_def
      TransformByQState_isNotStarted_def TransformByQState_isRunning_def
      TransformByQState_isCancelled_def TransformByQState_isFailed_def
      TransformByQState_isSucceeded_def TransformByQState_isPartiallySucceeded_def
    using scan_last job_last scenario
    unfolding CodeScanState_isNotStarted_def CodeScanState_isRunning_def
      CodeScanState_isCancelling_def
    by simp
qed

subsection \<open>Presentation is a pure, total function of the state\<close>

text \<open>
  C2. \<open>getPrefixTextForButton\<close> and \<open>getIconForButton\<close>, on both controllers, are
  total functions of the current status alone: a call leaves the receiver as it was, a
  second call right after the first returns the same value, the value is the one a fresh
  object with the same status gives (no other field is read), the label is never the empty
  string and the icon is never requested with an empty key.
\<close>

theorem C2_presentation_pure_total:
  "snd (CodeScanState_getPrefixTextForButton_call scan) = scan
   \<and> snd (CodeScanState_getIconForButton_call scan) = scan
   \<and> snd (TransformByQState_getPrefixTextForButton_call job) = job
   \<and> snd (TransformByQState_getIconForButton_call job) = job
   \<and> fst (CodeScanState_getPrefixTextForButton_call
            (snd (CodeScanState_getPrefixTextForButton_call scan)))
       = fst (CodeScanState_getPrefixTextForButton_call scan)
   \<and> fst (CodeScanState_getIconForButton_call (snd (CodeScanState_getIconForButton_call scan)))
       = fst (CodeScanState_getIconForButton_call scan)
   \<and> fst (TransformByQState_getPrefixTextForButton_call
            (snd (TransformByQState_getPrefixTextForButton_call job)))
       = fst (TransformByQState_getPrefixTextForButton_call job)
   \<and> fst (TransformByQState_getIconForButton_call
            (snd (TransformByQState_getIconForButton_call job)))
       = fst (TransformByQState_getIconForButton_call job)
   \<and> CodeScanState_getPrefixTextForButton scan
       = CodeScanState_getPrefixTextForButton
           (CodeScanState_new\<lparr>codeScanState := codeScanState scan\<rparr>)
   \<and> CodeScanState_getIconForButton scan
       = CodeScanState_getIconForButton
           (CodeScanState_new\<lparr>codeScanState := codeScanState scan\<rparr>)
   \<and> TransformByQState_getPrefixTextForButton job
       = TransformByQState_getPrefixTextForButton
           (TransformByQState_new\<lparr>transformByQState := TransformByQState_getStatus job\<rparr>)
   \<and> TransformByQState_getIconForButton job
       = TransformByQState_getIconForButton
           (TransformByQState_new\<lparr>transformByQState := TransformByQState_getStatus job\<rparr>)
   \<and> CodeScanState_getPrefixTextForButton scan \<noteq> ''''
   \<and> iconKey (CodeScanState_getIconForButton scan) \<noteq> ''''
   \<and> TransformByQState_getPrefixTextForButton job \<noteq> ''''
   \<and> iconKey (TransformByQState_getIconForButton job) \<noteq> ''''"
proof -
  have unchanged:
    "snd (CodeScanState_getPrefixTextForButton_call scan) = scan"
    "snd (CodeScanState_getIconForButton_call scan) = scan"
    "snd (TransformByQState_getPrefixTextForButton_call job) = job"
    "snd (TransformByQState_getIconForButton_call job) = job"
    by (simp_all add: CodeScanState_getPrefixTextForButton_call_def
          CodeScanState_getIconForButton_call_def
          TransformByQState_getPrefixTextForButton_call_def
          TransformByQState_getIconForButton_call_def)
  have of_status:
    "CodeScanState_getPrefixTextForButton scan
       = CodeScanState_getPrefixTextForButton
           (CodeScanState_new\<lparr>codeScanState := codeScanState scan\<rparr>)"
    "CodeScanState_getIconForButton scan
       = CodeScanState_getIconForButton
           (CodeScanState_new\<lparr>codeScanState := codeScanState scan\<rparr>)"
    "TransformByQState_getPrefixTextForButton job
       = TransformByQState_getPrefixTextForButton
           (TransformByQState_new\<lparr>transformByQState := TransformByQState_getStatus job\<rparr>)"
    "TransformByQState_getIconForButton job
       = TransformByQState_getIconForButton
           (TransformByQState_new\<lparr>transformByQState := TransformByQState_getStatus job\<rparr>)"
    by (simp_all add: presentation_defs TransformByQState_getStatus_def)
  have scan_nonempty:
    "CodeScanState_getPrefixTextForButton scan \<noteq> ''''"
    "iconKey (CodeScanState_getIconForButton scan) \<noteq> ''''"
    by (cases "codeScanState scan"; simp add: presentation_defs getIcon_def)+
  have job_nonempty:
    "TransformByQState_getPrefixTextForButton job \<noteq> ''''"
    "iconKey (TransformByQState_getIconForButton job) \<noteq> ''''"
    by (cases "transformByQState job"; simp add: presentation_defs getIcon_def)+
  show ?thesis
    using of_status scan_nonempty job_nonempty by (simp only: unchanged) simp
qed

subsection \<open>Presentation of the transformation job\<close>

text \<open>
  C3 as stated fails: a cancelled job is labelled "Stopping", not "Stop".
\<close>

theorem C3_cancelled_label_counterexample:
  "TransformByQState_isCancelled (TransformByQState_setToCancelled TransformByQState_new)
   \<and> TransformByQState_getPrefixTextForButton
        (TransformByQState_setToCancelled TransformByQState_new) = ''Stopping''
   \<and> TransformByQState_getPrefixTextForButton
        (TransformByQState_setToCancelled TransformByQState_new) \<noteq> ''Stop''"
  by (simp add: TransformByQState_isCancelled_def TransformByQState_setToCancelled_def
        TransformByQState_new_def TransformByQState_getPrefixTextForButton_def)

text \<open>
  C3, amended. The label is "Run" exactly when the job is not started, "Stopping" exactly
  when it is cancelled, and "Stop" exactly in the four states Running, Failed, Succeeded
  and PartiallySucceeded. The icon is the start icon (\<open>vscode-play\<close>) exactly when the job
  is not started and the stop icon (\<open>vscode-stop-circle\<close>) exactly in the five other
  states.
\<close>

theorem C3_transform_presentation:
  "(TransformByQState_getPrefixTextForButton job = ''Run'')
     = TransformByQState_isNotStarted job
   \<and> (TransformByQState_getPrefixTextForButton job = ''Stopping'')
     = TransformByQState_isCancelled job
   \<and> (TransformByQState_getPrefixTextForButton job = ''Stop'')
     = (TransformByQState_isRunning job \<or> TransformByQState_isFailed job
        \<or> TransformByQState_isSucceeded job \<or> TransformByQState_isPartiallySucceeded job)
   \<and> (TransformByQState_getIconForButton job = getIcon ''vscode-play'')
     = TransformByQState_isNotStarted job
   \<and> (TransformByQState_getIconForButton job = getIcon ''vscode-stop-circle'')
     = (TransformByQState_isRunning job \<or> TransformByQState_isCancelled job
        \<or> TransformByQState_isFailed job \<or> TransformByQState_isSucceeded job
        \<or> TransformByQState_isPartiallySucceeded job)"
  by (cases "transformByQState job")
     (simp_all add: TransformByQState_getPrefixTextForButton_def
        TransformByQState_getIconForButton_def getIcon_def TransformByQState_predicate_defs)

subsection \<open>A fresh transformation controller\<close>

text \<open>
  C4 as stated fails: the target version of a fresh controller is JDK17,
  and JDK8 is a lower member of the enumeration.
\<close>

theorem C4_target_default_counterexample:
  "TransformByQState_getTargetJDKVersion TransformByQState_new = JDK17
   \<and> TransformByQState_getTargetJDKVersion TransformByQState_new \<noteq> JDK8
   \<and> JDKVersion_number JDK8
       < JDKVersion_number (TransformByQState_getTargetJDKVersion TransformByQState_new)"
  by (simp add: TransformByQState_getTargetJDKVersion_def TransformByQState_new_def
        JDKVersion_numbers)

text \<open>
  C4, amended. On a fresh controller \<open>isNotStarted\<close> holds, each of the seven string
  getters returns the empty string, the source version is JDK8, the lowest member of the
  enumeration, and the target version is JDK17, the highest one. Every getter is a total
  function, so none fails before its setter was called.
\<close>

theorem C4_fresh_controller:
  "TransformByQState_isNotStarted TransformByQState_new
   \<and> TransformByQState_getStatus TransformByQState_new = TransformByQStatus_NotStarted
   \<and> TransformByQState_getProjectName TransformByQState_new = ''''
   \<and> TransformByQState_getProjectPath TransformByQState_new = ''''
   \<and> TransformByQState_getJobId TransformByQState_new = ''''
   \<and> TransformByQState_getPlanFilePath TransformByQState_new = ''''
   \<and> TransformByQState_getSummaryFilePath TransformByQState_new = ''''
   \<and> TransformByQState_getPolledJobStatus TransformByQState_new = ''''
   \<and> TransformByQState_getJobFailureReason TransformByQState_new = ''''
   \<and> TransformByQState_getSourceJDKVersion TransformByQState_new = JDK8
   \<and> TransformByQState_getTargetJDKVersion TransformByQState_new = JDK17
   \<and> (\<forall>v. JDKVersion_number JDK8 \<le> JDKVersion_number v)
   \<and> (\<forall>v. JDKVersion_number v \<le> JDKVersion_number JDK17)"
proof -
  have lowest: "JDKVersion_number JDK8 \<le> JDKVersion_number v" for v
    by (cases v) (simp_all add: JDKVersion_numbers)
  have highest: "JDKVersion_number v \<le> JDKVersion_number JDK17" for v
    by (cases v) (simp_all add: JDKVersion_numbers)
  show ?thesis
    using lowest highest
    by (simp add: TransformByQState_new_def TransformByQState_isNotStarted_def
          TransformByQState_getter_defs)
qed

subsection \<open>Metadata setters change one field\<close>

text \<open>
  C5. Each of the ten metadata setters of \<open>TransformByQState\<close>, called on any object,
  stores its value in its own field and leaves the result of every other getter as it
  was: the job status, the nine other metadata getters, the six predicates and the two
  presentation methods.
\<close>

theorem C5_metadata_setter_frame:
  "TransformByQState_getProjectName (TransformByQState_setProjectName x job)
       = x
   \<and> TransformByQState_getStatus (TransformByQState_setProjectName x job)
       = TransformByQState_getStatus job
   \<and> TransformByQState_getProjectPath (TransformByQState_setProjectName x job)
       = TransformByQState_getProjectPath job
   \<and> TransformByQState_getJobId (TransformByQState_setProjectName x job)
       = TransformByQState_getJobId job
   \<and> TransformByQState_getSourceJDKVersion (TransformByQState_setProjectName x job)
       = TransformByQState_getSourceJDKVersion job
   \<and> TransformByQState_getTargetJDKVersion (TransformByQState_setProjectName x job)
       = TransformByQState_getTargetJDKVersion job
   \<and> TransformByQState_getPlanFilePath (TransformByQState_setProjectName x job)
       = TransformByQState_getPlanFilePath job
   \<and> TransformByQState_getSummaryFilePath (TransformByQState_setProjectName x job)
       = TransformByQState_getSummaryFilePath job
   \<and> TransformByQState_getPolledJobStatus (TransformByQState_setProjectName x job)
       = TransformByQState_getPolledJobStatus job
   \<and> TransformByQState_getJobFailureReason (TransformByQState_setProjectName x job)
       = TransformByQState_getJobFailureReason job
   \<and> TransformByQState_isNotStarted (TransformByQState_setProjectName x job)
       = TransformByQState_isNotStarted job
   \<and> TransformByQState_isRunning (TransformByQState_setProjectName x job)
       = TransformByQState_isRunning job
   \<and> TransformByQState_isCancelled (TransformByQState_setProjectName x job)
       = TransformByQState_isCancelled job
   \<and> TransformByQState_isFailed (TransformByQState_setProjectName x job)
       = TransformByQState_isFailed job
   \<and> TransformByQState_isSucceeded (TransformByQState_setProjectName x job)
       = TransformByQState_isSucceeded job
   \<and> TransformByQState_isPartiallySucceeded (TransformByQState_setProjectName x job)
       = TransformByQState_isPartiallySucceeded job
   \<and> TransformByQState_getPrefixTextForButton (TransformByQState_setProjectName x job)
       = TransformByQState_getPrefixTextForButton job
   \<and> TransformByQState_getIconForButton (TransformByQState_setProjectName x job)
       = TransformByQState_getIconForButton job
   \<and> TransformByQState_getProjectPath (TransformByQState_setProjectPath x job)
       = x
   \<and> TransformByQState_getStatus (TransformByQState_setProjectPath x job)
       = TransformByQState_getStatus job
   \<and> TransformByQState_getProjectName (TransformByQState_setProjectPath x job)
       = TransformByQState_getProjectName job
   \<and> TransformByQState_getJobId (TransformByQState_setProjectPath x job)
       = TransformByQState_getJobId job
   \<and> TransformByQState_getSourceJDKVersion (TransformByQState_setProjectPath x job)
       = TransformByQState_getSourceJDKVersion job
   \<and> TransformByQState_getTargetJDKVersion (TransformByQState_setProjectPath x job)
       = TransformByQState_getTargetJDKVersion job
   \<and> TransformByQState_getPlanFilePath (TransformByQState_setProjectPath x job)
       = TransformByQState_getPlanFilePath job
   \<and> TransformByQState_getSummaryFilePath (TransformByQState_setProjectPath x job)
       = TransformByQState_getSummaryFilePath job
   \<and> TransformByQState_getPolledJobStatus (TransformByQState_setProjectPath x job)
       = TransformByQState_getPolledJobStatus job
   \<and> TransformByQState_getJobFailureReason (TransformByQState_setProjectPath x job)
       = TransformByQState_getJobFailureReason job
   \<and> TransformByQState_isNotStarted (TransformByQState_setProjectPath x job)
       = TransformByQState_isNotStarted job
   \<and> TransformByQState_isRunning (TransformByQState_setProjectPath x job)
       = TransformByQState_isRunning job
   \<and> TransformByQState_isCancelled (TransformByQState_setProjectPath x job)
       = TransformByQState_isCancelled job
   \<and> TransformByQState_isFailed (TransformByQState_setProjectPath x job)
       = TransformByQState_isFailed job
   \<and> TransformByQState_isSucceeded (TransformByQState_setProjectPath x job)
       = TransformByQState_isSucceeded job
   \<and> TransformByQState_isPartiallySucceeded (TransformByQState_setProjectPath x job)
       = TransformByQState_isPartiallySucceeded job
   \<and> TransformByQState_getPrefixTextForButton (TransformByQState_setProjectPath x job)
       = TransformByQState_getPrefixTextForButton job
   \<and> TransformByQState_getIconForButton (TransformByQState_setProjectPath x job)
       = TransformByQState_getIconForButton job
   \<and> TransformByQState_getJobId (TransformByQState_setJobId x job)
       = x
   \<and> TransformByQState_getStatus (TransformByQState_setJobId x job)
       = TransformByQState_getStatus job
   \<and> TransformByQState_getProjectName (TransformByQState_setJobId x job)
       = TransformByQState_getProjectName job
   \<and> TransformByQState_getProjectPath (TransformByQState_setJobId x job)
       = TransformByQState_getProjectPath job
   \<and> TransformByQState_getSourceJDKVersion (TransformByQState_setJobId x job)
       = TransformByQState_getSourceJDKVersion job
   \<and> TransformByQState_getTargetJDKVersion (TransformByQState_setJobId x job)
       = TransformByQState_getTargetJDKVersion job
   \<and> TransformByQState_getPlanFilePath (TransformByQState_setJobId x job)
       = TransformByQState_getPlanFilePath job
   \<and> TransformByQState_getSummaryFilePath (TransformByQState_setJobId x job)
       = TransformByQState_getSummaryFilePath job
   \<and> TransformByQState_getPolledJobStatus (TransformByQState_setJobId x job)
       = TransformByQState_getPolledJobStatus job
   \<and> TransformByQState_getJobFailureReason (TransformByQState_setJobId x job)
       = TransformByQState_getJobFailureReason job
   \<and> TransformByQState_isNotStarted (TransformByQState_setJobId x job)
       = TransformByQState_isNotStarted job
   \<and> TransformByQState_isRunning (TransformByQState_setJobId x job)
       = TransformByQState_isRunning job
   \<and> TransformByQState_isCancelled (TransformByQState_setJobId x job)
       = TransformByQState_isCancelled job
   \<and> TransformByQState_isFailed (TransformByQState_setJobId x job)
       = TransformByQState_isFailed job
   \<and> TransformByQState_isSucceeded (TransformByQState_setJobId x job)
       = TransformByQState_isSucceeded job
   \<and> TransformByQState_isPartiallySucceeded (TransformByQState_setJobId x job)
       = TransformByQState_isPartiallySucceeded job
   \<and> TransformByQState_getPrefixTextForButton (TransformByQState_setJobId x job)
       = TransformByQState_getPrefixTextForButton job
   \<and> TransformByQState_getIconForButton (TransformByQState_setJobId x job)
       = TransformByQState_getIconForButton job
   \<and> TransformByQState_getSourceJDKVersion (TransformByQState_setSourceJDKVersionToJDK8 job)
       = JDK8
   \<and> TransformByQState_getStatus (TransformByQState_setSourceJDKVersionToJDK8 job)
       = TransformByQState_getStatus job
   \<and> TransformByQState_getProjectName (TransformByQState_setSourceJDKVersionToJDK8 job)
       = TransformByQState_getProjectName job
   \<and> TransformByQState_getProjectPath (TransformByQState_setSourceJDKVersionToJDK8 job)
       = TransformByQState_getProjectPath job
   \<and> TransformByQState_getJobId (TransformByQState_setSourceJDKVersionToJDK8 job)
       = TransformByQState_getJobId job
   \<and> TransformByQState_getTargetJDKVersion (TransformByQState_setSourceJDKVersionToJDK8 job)
       = TransformByQState_getTargetJDKVersion job
   \<and> TransformByQState_getPlanFilePath (TransformByQState_setSourceJDKVersionToJDK8 job)
       = TransformByQState_getPlanFilePath job
   \<and> TransformByQState_getSummaryFilePath (TransformByQState_setSourceJDKVersionToJDK8 job)
       = TransformByQState_getSummaryFilePath job
   \<and> TransformByQState_getPolledJobStatus (TransformByQState_setSourceJDKVersionToJDK8 job)
       = TransformByQState_getPolledJobStatus job
   \<and> TransformByQState_getJobFailureReason (TransformByQState_setSourceJDKVersionToJDK8 job)
       = TransformByQState_getJobFailureReason job
   \<and> TransformByQState_isNotStarted (TransformByQState_setSourceJDKVersionToJDK8 job)
       = TransformByQState_isNotStarted job
   \<and> TransformByQState_isRunning (TransformByQState_setSourceJDKVersionToJDK8 job)
       = TransformByQState_isRunning job
   \<and> TransformByQState_isCancelled (TransformByQState_setSourceJDKVersionToJDK8 job)
       = TransformByQState_isCancelled job
   \<and> TransformByQState_isFailed (TransformByQState_setSourceJDKVersionToJDK8 job)
       = TransformByQState_isFailed job
   \<and> TransformByQState_isSucceeded (TransformByQState_setSourceJDKVersionToJDK8 job)
       = TransformByQState_isSucceeded job
   \<and> TransformByQState_isPartiallySucceeded (TransformByQState_setSourceJDKVersionToJDK8 job)
       = TransformByQState_isPartiallySucceeded job
   \<and> TransformByQState_getPrefixTextForButton (TransformByQState_setSourceJDKVersionToJDK8 job)
       = TransformByQState_getPrefixTextForButton job
   \<and> TransformByQState_getIconForButton (TransformByQState_setSourceJDKVersionToJDK8 job)
       = TransformByQState_getIconForButton job
   \<and> TransformByQState_getSourceJDKVersion (TransformByQState_setSourceJDKVersionToJDK11 job)
       = JDK11
   \<and> TransformByQState_getStatus (TransformByQState_setSourceJDKVersionToJDK11 job)
       = TransformByQState_getStatus job
   \<and> TransformByQState_getProjectName (TransformByQState_setSourceJDKVersionToJDK11 job)
       = TransformByQState_getProjectName job
   \<and> TransformByQState_getProjectPath (TransformByQState_setSourceJDKVersionToJDK11 job)
       = TransformByQState_getProjectPath job
   \<and> TransformByQState_getJobId (TransformByQState_setSourceJDKVersionToJDK11 job)
       = TransformByQState_getJobId job
   \<and> TransformByQState_getTargetJDKVersion (TransformByQState_setSourceJDKVersionToJDK11 job)
       = TransformByQState_getTargetJDKVersion job
   \<and> TransformByQState_getPlanFilePath (TransformByQState_setSourceJDKVersionToJDK11 job)
       = TransformByQState_getPlanFilePath job
   \<and> TransformByQState_getSummaryFilePath (TransformByQState_setSourceJDKVersionToJDK11 job)
       = TransformByQState_getSummaryFilePath job
   \<and> TransformByQState_getPolledJobStatus (TransformByQState_setSourceJDKVersionToJDK11 job)
       = TransformByQState_getPolledJobStatus job
   \<and> TransformByQState_getJobFailureReason (TransformByQState_setSourceJDKVersionToJDK11 job)
       = TransformByQState_getJobFailureReason job
   \<and> TransformByQState_isNotStarted (TransformByQState_setSourceJDKVersionToJDK11 job)
       = TransformByQState_isNotStarted job
   \<and> TransformByQState_isRunning (TransformByQState_setSourceJDKVersionToJDK11 job)
       = TransformByQState_isRunning job
   \<and> TransformByQState_isCancelled (TransformByQState_setSourceJDKVersionToJDK11 job)
       = TransformByQState_isCancelled job
   \<and> TransformByQState_isFailed (TransformByQState_setSourceJDKVersionToJDK11 job)
       = TransformByQState_isFailed job
   \<and> TransformByQState_isSucceeded (TransformByQState_setSourceJDKVersionToJDK11 job)
       = TransformByQState_isSucceeded job
   \<and> TransformByQState_isPartiallySucceeded (TransformByQState_setSourceJDKVersionToJDK11 job)
       = TransformByQState_isPartiallySucceeded job
   \<and> TransformByQState_getPrefixTextForButton (TransformByQState_setSourceJDKVersionToJDK11 job)
       = TransformByQState_getPrefixTextForButton job
   \<and> TransformByQState_getIconForButton (TransformByQState_setSourceJDKVersionToJDK11 job)
       = TransformByQState_getIconForButton job
   \<and> TransformByQState_getTargetJDKVersion (TransformByQState_setTargetJDKVersionToJDK17 job)
       = JDK17
   \<and> TransformByQState_getStatus (TransformByQState_setTargetJDKVersionToJDK17 job)
       = TransformByQState_getStatus job
   \<and> TransformByQState_getProjectName (TransformByQState_setTargetJDKVersionToJDK17 job)
       = TransformByQState_getProjectName job
   \<and> TransformByQState_getProjectPath (TransformByQState_setTargetJDKVersionToJDK17 job)
       = TransformByQState_getProjectPath job
   \<and> TransformByQState_getJobId (TransformByQState_setTargetJDKVersionToJDK17 job)
       = TransformByQState_getJobId job
   \<and> TransformByQState_getSourceJDKVersion (TransformByQState_setTargetJDKVersionToJDK17 job)
       = TransformByQState_getSourceJDKVersion job
   \<and> TransformByQState_getPlanFilePath (TransformByQState_setTargetJDKVersionToJDK17 job)
       = TransformByQState_getPlanFilePath job
   \<and> TransformByQState_getSummaryFilePath (TransformByQState_setTargetJDKVersionToJDK17 job)
       = TransformByQState_getSummaryFilePath job
   \<and> TransformByQState_getPolledJobStatus (TransformByQState_setTargetJDKVersionToJDK17 job)
       = TransformByQState_getPolledJobStatus job
   \<and> TransformByQState_getJobFailureReason (TransformByQState_setTargetJDKVersionToJDK17 job)
       = TransformByQState_getJobFailureReason job
   \<and> TransformByQState_isNotStarted (TransformByQState_setTargetJDKVersionToJDK17 job)
       = TransformByQState_isNotStarted job
   \<and> TransformByQState_isRunning (TransformByQState_setTargetJDKVersionToJDK17 job)
       = TransformByQState_isRunning job
   \<and> TransformByQState_isCancelled (TransformByQState_setTargetJDKVersionToJDK17 job)
       = TransformByQState_isCancelled job
   \<and> TransformByQState_isFailed (TransformByQState_setTargetJDKVersionToJDK17 job)
       = TransformByQState_isFailed job
   \<and> TransformByQState_isSucceeded (TransformByQState_setTargetJDKVersionToJDK17 job)
       = TransformByQState_isSucceeded job
   \<and> TransformByQState_isPartiallySucceeded (TransformByQState_setTargetJDKVersionToJDK17 job)
       = TransformByQState_isPartiallySucceeded job
   \<and> TransformByQState_getPrefixTextForButton (TransformByQState_setTargetJDKVersionToJDK17 job)
       = TransformByQState_getPrefixTextForButton job
   \<and> TransformByQState_getIconForButton (TransformByQState_setTargetJDKVersionToJDK17 job)
       = TransformByQState_getIconForButton job
   \<and> TransformByQState_getPlanFilePath (TransformByQState_setPlanFilePath x job)
       = x
   \<and> TransformByQState_getStatus (TransformByQState_setPlanFilePath x job)
       = TransformByQState_getStatus job
   \<and> TransformByQState_getProjectName (TransformByQState_setPlanFilePath x job)
       = TransformByQState_getProjectName job
   \<and> TransformByQState_getProjectPath (TransformByQState_setPlanFilePath x job)
       = TransformByQState_getProjectPath job
   \<and> TransformByQState_getJobId (TransformByQState_setPlanFilePath x job)
       = TransformByQState_getJobId job
   \<and> TransformByQState_getSourceJDKVersion (TransformByQState_setPlanFilePath x job)
       = TransformByQState_getSourceJDKVersion job
   \<and> TransformByQState_getTargetJDKVersion (TransformByQState_setPlanFilePath x job)
       = TransformByQState_getTargetJDKVersion job
   \<and> TransformByQState_getSummaryFilePath (TransformByQState_setPlanFilePath x job)
       = TransformByQState_getSummaryFilePath job
   \<and> TransformByQState_getPolledJobStatus (TransformByQState_setPlanFilePath x job)
       = TransformByQState_getPolledJobStatus job
   \<and> TransformByQState_getJobFailureReason (TransformByQState_setPlanFilePath x job)
       = TransformByQState_getJobFailureReason job
   \<and> TransformByQState_isNotStarted (TransformByQState_setPlanFilePath x job)
       = TransformByQState_isNotStarted job
   \<and> TransformByQState_isRunning (TransformByQState_setPlanFilePath x job)
       = TransformByQState_isRunning job
   \<and> TransformByQState_isCancelled (TransformByQState_setPlanFilePath x job)
       = TransformByQState_isCancelled job
   \<and> TransformByQState_isFailed (TransformByQState_setPlanFilePath x job)
       = TransformByQState_isFailed job
   \<and> TransformByQState_isSucceeded (TransformByQState_setPlanFilePath x job)
       = TransformByQState_isSucceeded job
   \<and> TransformByQState_isPartiallySucceeded (TransformByQState_setPlanFilePath x job)
       = TransformByQState_isPartiallySucceeded job
   \<and> TransformByQState_getPrefixTextForButton (TransformByQState_setPlanFilePath x job)
       = TransformByQState_getPrefixTextForButton job
   \<and> TransformByQState_getIconForButton (TransformByQState_setPlanFilePath x job)
       = TransformByQState_getIconForButton job
   \<and> TransformByQState_getPolledJobStatus (TransformByQState_setPolledJobStatus x job)
       = x
   \<and> TransformByQState_getStatus (TransformByQState_setPolledJobStatus x job)
       = TransformByQState_getStatus job
   \<and> TransformByQState_getProjectName (TransformByQState_setPolledJobStatus x job)
       = TransformByQState_getProjectName job
   \<and> TransformByQState_getProjectPath (TransformByQState_setPolledJobStatus x job)
       = TransformByQState_getProjectPath job
   \<and> TransformByQState_getJobId (TransformByQState_setPolledJobStatus x job)
       = TransformByQState_getJobId job
   \<and> TransformByQState_getSourceJDKVersion (TransformByQState_setPolledJobStatus x job)
       = TransformByQState_getSourceJDKVersion job
   \<and> TransformByQState_getTargetJDKVersion (TransformByQState_setPolledJobStatus x job)
       = TransformByQState_getTargetJDKVersion job
   \<and> TransformByQState_getPlanFilePath (TransformByQState_setPolledJobStatus x job)
       = TransformByQState_getPlanFilePath job
   \<and> TransformByQState_getSummaryFilePath (TransformByQState_setPolledJobStatus x job)
       = TransformByQState_getSummaryFilePath job
   \<and> TransformByQState_getJobFailureReason (TransformByQState_setPolledJobStatus x job)
       = TransformByQState_getJobFailureReason job
   \<and> TransformByQState_isNotStarted (TransformByQState_setPolledJobStatus x job)
       = TransformByQState_isNotStarted job
   \<and> TransformByQState_isRunning (TransformByQState_setPolledJobStatus x job)
       = TransformByQState_isRunning job
   \<and> TransformByQState_isCancelled (TransformByQState_setPolledJobStatus x job)
       = TransformByQState_isCancelled job
   \<and> TransformByQState_isFailed (TransformByQState_setPolledJobStatus x job)
       = TransformByQState_isFailed job
   \<and> TransformByQState_isSucceeded (TransformByQState_setPolledJobStatus x job)
       = TransformByQState_isSucceeded job
   \<and> TransformByQState_isPartiallySucceeded (TransformByQState_setPolledJobStatus x job)
       = TransformByQState_isPartiallySucceeded job
   \<and> TransformByQState_getPrefixTextForButton (TransformByQState_setPolledJobStatus x job)
       = TransformByQState_getPrefixTextForButton job
   \<and> TransformByQState_getIconForButton (TransformByQState_setPolledJobStatus x job)
       = TransformByQState_getIconForButton job
   \<and> TransformByQState_getSummaryFilePath (TransformByQState_setSummaryFilePath x job)
       = x
   \<and> TransformByQState_getStatus (TransformByQState_setSummaryFilePath x job)
       = TransformByQState_getStatus job
   \<and> TransformByQState_getProjectName (TransformByQState_setSummaryFilePath x job)
       = TransformByQState_getProjectName job
   \<and> TransformByQState_getProjectPath (TransformByQState_setSummaryFilePath x job)
       = TransformByQState_getProjectPath job
   \<and> TransformByQState_getJobId (TransformByQState_setSummaryFilePath x job)
       = TransformByQState_getJobId job
   \<and> TransformByQState_getSourceJDKVersion (TransformByQState_setSummaryFilePath x job)
       = TransformByQState_getSourceJDKVersion job
   \<and> TransformByQState_getTargetJDKVersion (TransformByQState_setSummaryFilePath x job)
       = TransformByQState_getTargetJDKVersion job
   \<and> TransformByQState_getPlanFilePath (TransformByQState_setSummaryFilePath x job)
       = TransformByQState_getPlanFilePath job
   \<and> TransformByQState_getPolledJobStatus (TransformByQState_setSummaryFilePath x job)
       = TransformByQState_getPolledJobStatus job
   \<and> TransformByQState_getJobFailureReason (TransformByQState_setSummaryFilePath x job)
       = TransformByQState_getJobFailureReason job
   \<and> TransformByQState_isNotStarted (TransformByQState_setSummaryFilePath x job)
       = TransformByQState_isNotStarted job
   \<and> TransformByQState_isRunning (TransformByQState_setSummaryFilePath x job)
       = TransformByQState_isRunning job
   \<and> TransformByQState_isCancelled (TransformByQState_setSummaryFilePath x job)
       = TransformByQState_isCancelled job
   \<and> TransformByQState_isFailed (TransformByQState_setSummaryFilePath x job)
       = TransformByQState_isFailed job
   \<and> TransformByQState_isSucceeded (TransformByQState_setSummaryFilePath x job)
       = TransformByQState_isSucceeded job
   \<and> TransformByQState_isPartiallySucceeded (TransformByQState_setSummaryFilePath x job)
       = TransformByQState_isPartiallySucceeded job
   \<and> TransformByQState_getPrefixTextForButton (TransformByQState_setSummaryFilePath x job)
       = TransformByQState_getPrefixTextForButton job
   \<and> TransformByQState_getIconForButton (TransformByQState_setSummaryFilePath x job)
       = TransformByQState_getIconForButton job
   \<and> TransformByQState_getJobFailureReason (TransformByQState_setJobFailureReason x job)
       = x
   \<and> TransformByQState_getStatus (TransformByQState_setJobFailureReason x job)
       = TransformByQState_getStatus job
   \<and> TransformByQState_getProjectName (TransformByQState_setJobFailureReason x job)
       = TransformByQState_getProjectName job
   \<and> TransformByQState_getProjectPath (TransformByQState_setJobFailureReason x job)
       = TransformByQState_getProjectPath job
   \<and> TransformByQState_getJobId (TransformByQState_setJobFailureReason x job)
       = TransformByQState_getJobId job
   \<and> TransformByQState_getSourceJDKVersion (TransformByQState_setJobFailureReason x job)
       = TransformByQState_getSourceJDKVersion job
   \<and> TransformByQState_getTargetJDKVersion (TransformByQState_setJobFailureReason x job)
       = TransformByQState_getTargetJDKVersion job
   \<and> TransformByQState_getPlanFilePath (TransformByQState_setJobFailureReason x job)
       = TransformByQState_getPlanFilePath job
   \<and> TransformByQState_getSummaryFilePath (TransformByQState_setJobFailureReason x job)
       = TransformByQState_getSummaryFilePath job
   \<and> TransformByQState_getPolledJobStatus (TransformByQState_setJobFailureReason x job)
       = TransformByQState_getPolledJobStatus job
   \<and> TransformByQState_isNotStarted (TransformByQState_setJobFailureReason x job)
       = TransformByQState_isNotStarted job
   \<and> TransformByQState_isRunning (TransformByQState_setJobFailureReason x job)
       = TransformByQState_isRunning job
   \<and> TransformByQState_isCancelled (TransformByQState_setJobFailureReason x job)
       = TransformByQState_isCancelled job
   \<and> TransformByQState_isFailed (TransformByQState_setJobFailureReason x job)
       = TransformByQState_isFailed job
   \<and> TransformByQState_isSucceeded (TransformByQState_setJobFailureReason x job)
       = TransformByQState_isSucceeded job
   \<and> TransformByQState_isPartiallySucceeded (TransformByQState_setJobFailureReason x job)
       = TransformByQState_isPartiallySucceeded job
   \<and> TransformByQState_getPrefixTextForButton (TransformByQState_setJobFailureReason x job)
       = TransformByQState_getPrefixTextForButton job
   \<and> TransformByQState_getIconForButton (TransformByQState_setJobFailureReason x job)
       = TransformByQState_getIconForButton job"
  by (simp add: TransformByQState_setter_defs TransformByQState_getter_defs
        TransformByQState_predicate_defs TransformByQState_getPrefixTextForButton_def
        TransformByQState_getIconForButton_def)

subsection \<open>Presentation of the security scan\<close>

text \<open>
  C6. For \<open>CodeScanState\<close>: NotStarted gives the label "Run" with the start icon
  (\<open>vscode-debug-alt-small\<close>), Running gives "Stop" with the stop icon
  (\<open>vscode-stop-circle\<close>), Cancelling gives "Stopping" with the loading spinner
  (\<open>vscode-icons:loading~spin\<close>); and each label and icon is given in that state only.
\<close>

theorem C6_scan_presentation:
  "CodeScanState_getPrefixTextForButton \<lparr>codeScanState = CodeScanStatus_NotStarted\<rparr> = ''Run''
   \<and> CodeScanState_getIconForButton \<lparr>codeScanState = CodeScanStatus_NotStarted\<rparr>
       = getIcon ''vscode-debug-alt-small''
   \<and> CodeScanState_getPrefixTextForButton \<lparr>codeScanState = CodeScanStatus_Running\<rparr> = ''Stop''
   \<and> CodeScanState_getIconForButton \<lparr>codeScanState = CodeScanStatus_Running\<rparr>
       = getIcon ''vscode-stop-circle''
   \<and> CodeScanState_getPrefixTextForButton \<lparr>codeScanState = CodeScanStatus_Cancelling\<rparr>
       = ''Stopping''
   \<and> CodeScanState_getIconForButton \<lparr>codeScanState = CodeScanStatus_Cancelling\<rparr>
       = getIcon ''vscode-icons:loading~spin''
   \<and> (CodeScanState_getPrefixTextForButton scan = ''Run'') = CodeScanState_isNotStarted scan
   \<and> (CodeScanState_getPrefixTextForButton scan = ''Stop'') = CodeScanState_isRunning scan
   \<and> (CodeScanState_getPrefixTextForButton scan = ''Stopping'')
       = CodeScanState_isCancelling scan
   \<and> (CodeScanState_getIconForButton scan = getIcon ''vscode-debug-alt-small'')
       = CodeScanState_isNotStarted scan
   \<and> (CodeScanState_getIconForButton scan = getIcon ''vscode-stop-circle'')
       = CodeScanState_isRunning scan
   \<and> (CodeScanState_getIconForButton scan = getIcon ''vscode-icons:loading~spin'')
       = CodeScanState_isCancelling scan"
proof -
  have fixed:
    "CodeScanState_getPrefixTextForButton \<lparr>codeScanState = CodeScanStatus_NotStarted\<rparr> = ''Run''"
    "CodeScanState_getIconForButton \<lparr>codeScanState = CodeScanStatus_NotStarted\<rparr>
       = getIcon ''vscode-debug-alt-small''"
    "CodeScanState_getPrefixTextForButton \<lparr>codeScanState = CodeScanStatus_Running\<rparr> = ''Stop''"
    "CodeScanState_getIconForButton \<lparr>codeScanState = CodeScanStatus_Running\<rparr>
       = getIcon ''vscode-stop-circle''"
    "CodeScanState_getPrefixTextForButton \<lparr>codeScanState = CodeScanStatus_Cancelling\<rparr>
       = ''Stopping''"
    "CodeScanState_getIconForButton \<lparr>codeScanState = CodeScanStatus_Cancelling\<rparr>
       = getIcon ''vscode-icons:loading~spin''"
    by (simp_all add: CodeScanState_getPrefixTextForButton_def CodeScanState_getIconForButton_def)
  have only:
    "(CodeScanState_getPrefixTextForButton scan = ''Run'') = CodeScanState_isNotStarted scan
     \<and> (CodeScanState_getPrefixTextForButton scan = ''Stop'') = CodeScanState_isRunning scan
     \<and> (CodeScanState_getPrefixTextForButton scan = ''Stopping'')
         = CodeScanState_isCancelling scan
     \<and> (CodeScanState_getIconForButton scan = getIcon ''vscode-debug-alt-small'')
         = CodeScanState_isNotStarted scan
     \<and> (CodeScanState_getIconForButton scan = getIcon ''vscode-stop-circle'')
         = CodeScanState_isRunning scan
     \<and> (CodeScanState_getIconForButton scan = getIcon ''vscode-icons:loading~spin'')
         = CodeScanState_isCancelling scan"
    by (cases "codeScanState scan")
       (simp_all add: CodeScanState_getPrefixTextForButton_def
          CodeScanState_getIconForButton_def getIcon_def CodeScanState_isNotStarted_def
          CodeScanState_isRunning_def CodeScanState_isCancelling_def)
  show ?thesis
    using only by (simp add: fixed)
qed

subsection \<open>Cancellation signals\<close>

text \<open>
  C7. The source declares two classes of cancellation signal, \<open>CodeScanStoppedError\<close> and
  \<open>TransformByQStoppedError\<close>, and no other. Every instance of either has the marker
  \<open>cancelled\<close> set and carries the fixed message of its class, "Security scan stopped by
  user." or "Transform by Q stopped by user."; an error built without the marker has it
  unset, so the marker tells a stop asked for by the user from a plain failure.
\<close>

theorem C7_stopped_errors:
  "(UNIV :: StoppedError set) = {CodeScanStoppedError, TransformByQStoppedError}
   \<and> CodeScanStoppedError \<noteq> TransformByQStoppedError
   \<and> cancelled (StoppedError_new kind) = True
   \<and> message (StoppedError_new kind)
       = (case kind of
            CodeScanStoppedError \<Rightarrow> ''Security scan stopped by user.''
          | TransformByQStoppedError \<Rightarrow> ''Transform by Q stopped by user.'')
   \<and> cancelled CodeScanStoppedError_new = True
   \<and> message CodeScanStoppedError_new = ''Security scan stopped by user.''
   \<and> cancelled TransformByQStoppedError_new = True
   \<and> message TransformByQStoppedError_new = ''Transform by Q stopped by user.''
   \<and> cancelled (ToolkitError_new msg \<lparr>info_cancelled = False\<rparr>) = False"
proof -
  have classes: "(UNIV :: StoppedError set) = {CodeScanStoppedError, TransformByQStoppedError}"
  proof
    show "(UNIV :: StoppedError set) \<subseteq> {CodeScanStoppedError, TransformByQStoppedError}"
    proof
      fix kind :: StoppedError
      show "kind \<in> {CodeScanStoppedError, TransformByQStoppedError}"
        by (cases kind) simp_all
    qed
  qed simp
  have instances:
    "cancelled (StoppedError_new kind) = True
     \<and> message (StoppedError_new kind)
         = (case kind of
              CodeScanStoppedError \<Rightarrow> ''Security scan stopped by user.''
            | TransformByQStoppedError \<Rightarrow> ''Transform by Q stopped by user.'')"
    by (cases kind)
       (simp_all add: CodeScanStoppedError_new_def TransformByQStoppedError_new_def
          ToolkitError_new_def)
  have constructors:
    "cancelled CodeScanStoppedError_new = True"
    "message CodeScanStoppedError_new = ''Security scan stopped by user.''"
    "cancelled TransformByQStoppedError_new = True"
    "message TransformByQStoppedError_new = ''Transform by Q stopped by user.''"
    "cancelled (ToolkitError_new msg \<lparr>info_cancelled = False\<rparr>) = False"
    by (simp_all add: CodeScanStoppedError_new_def TransformByQStoppedError_new_def
          ToolkitError_new_def)
  show ?thesis
    using classes instances constructors by blast
qed

subsection \<open>Succeeding leaves the review status alone\<close>

text \<open>
  C8. \<open>setToSucceeded\<close> assigns the job status and nothing else: in any configuration the
  review status is the same before and after the call, the job status afterwards is
  Succeeded, and every metadata getter of the controller returns what it returned before.
\<close>

theorem C8_setToSucceeded_frame:
  "reviewStatus (TransformConfiguration_setToSucceeded conf) = reviewStatus conf
   \<and> controller (TransformConfiguration_setToSucceeded conf)
       = TransformByQState_setToSucceeded (controller conf)
   \<and> TransformByQState_getStatus (TransformByQState_setToSucceeded job)
       = TransformByQStatus_Succeeded
   \<and> TransformByQState_isSucceeded (TransformByQState_setToSucceeded job)
   \<and> TransformByQState_getProjectName (TransformByQState_setToSucceeded job)
       = TransformByQState_getProjectName job
   \<and> TransformByQState_getProjectPath (TransformByQState_setToSucceeded job)
       = TransformByQState_getProjectPath job
   \<and> TransformByQState_getJobId (TransformByQState_setToSucceeded job)
       = TransformByQState_getJobId job
   \<and> TransformByQState_getSourceJDKVersion (TransformByQState_setToSucceeded job)
       = TransformByQState_getSourceJDKVersion job
   \<and> TransformByQState_getTargetJDKVersion (TransformByQState_setToSucceeded job)
       = TransformByQState_getTargetJDKVersion job
   \<and> TransformByQState_getPlanFilePath (TransformByQState_setToSucceeded job)
       = TransformByQState_getPlanFilePath job
   \<and> TransformByQState_getSummaryFilePath (TransformByQState_setToSucceeded job)
       = TransformByQState_getSummaryFilePath job
   \<and> TransformByQState_getPolledJobStatus (TransformByQState_setToSucceeded job)
       = TransformByQState_getPolledJobStatus job
   \<and> TransformByQState_getJobFailureReason (TransformByQState_setToSucceeded job)
       = TransformByQState_getJobFailureReason job"
  by (simp add: TransformConfiguration_setToSucceeded_def TransformByQState_setToSucceeded_def
        TransformByQState_getter_defs TransformByQState_isSucceeded_def)

subsection \<open>Exactly one predicate holds\<close>

text \<open>
  C9. On every scan controller exactly one of \<open>isNotStarted\<close>, \<open>isRunning\<close>,
  \<open>isCancelling\<close> holds, and on every transformation controller exactly one of
  \<open>isNotStarted\<close>, \<open>isRunning\<close>, \<open>isCancelled\<close>, \<open>isFailed\<close>, \<open>isSucceeded\<close>,
  \<open>isPartiallySucceeded\<close>: in any object, after any single state-changing call on it,
  and in every object reached from a fresh one by any sequence of such calls.
\<close>

theorem C9_exactly_one_predicate:
  "count_true [CodeScanState_isNotStarted scan, CodeScanState_isRunning scan,
               CodeScanState_isCancelling scan] = 1
   \<and> count_true [CodeScanState_isNotStarted (CodeScanState_transition c scan),
                 CodeScanState_isRunning (CodeScanState_transition c scan),
                 CodeScanState_isCancelling (CodeScanState_transition c scan)] = 1
   \<and> count_true [CodeScanState_isNotStarted (CodeScanState_transitions cs CodeScanState_new),
                 CodeScanState_isRunning (CodeScanState_transitions cs CodeScanState_new),
                 CodeScanState_isCancelling (CodeScanState_transitions cs CodeScanState_new)] = 1
   \<and> count_true [TransformByQState_isNotStarted job, TransformByQState_isRunning job,
                 TransformByQState_isCancelled job, TransformByQState_isFailed job,
                 TransformByQState_isSucceeded job,
                 TransformByQState_isPartiallySucceeded job] = 1
   \<and> count_true [TransformByQState_isNotStarted (TransformByQState_call k job),
                 TransformByQState_isRunning (TransformByQState_call k job),
                 TransformByQState_isCancelled (TransformByQState_call k job),
                 TransformByQState_isFailed (TransformByQState_call k job),
                 TransformByQState_isSucceeded (TransformByQState_call k job),
                 TransformByQState_isPartiallySucceeded (TransformByQState_call k job)] = 1
   \<and> count_true
        [TransformByQState_isNotStarted (TransformByQState_calls ks TransformByQState_new),
         TransformByQState_isRunning (TransformByQState_calls ks TransformByQState_new),
         TransformByQState_isCancelled (TransformByQState_calls ks TransformByQState_new),
         TransformByQState_isFailed (TransformByQState_calls ks TransformByQState_new),
         TransformByQState_isSucceeded (TransformByQState_calls ks TransformByQState_new),
         TransformByQState_isPartiallySucceeded
           (TransformByQState_calls ks TransformByQState_new)] = 1"
proof -
  have scan_one:
    "count_true [CodeScanState_isNotStarted s, CodeScanState_isRunning s,
                 CodeScanState_isCancelling s] = 1" for s
    by (cases "codeScanState s")
       (simp_all add: count_true_def CodeScanState_isNotStarted_def
          CodeScanState_isRunning_def CodeScanState_isCancelling_def)
  have job_one:
    "count_true [TransformByQState_isNotStarted j, TransformByQState_isRunning j,
                 TransformByQState_isCancelled j, TransformByQState_isFailed j,
                 TransformByQState_isSucceeded j,
                 TransformByQState_isPartiallySucceeded j] = 1" for j
    by (cases "transformByQState j")
       (simp_all add: count_true_def TransformByQState_predicate_defs)
  show ?thesis
    by (intro conjI) (rule scan_one job_one)+
qed

subsection \<open>Platform versions of reachable controllers\<close>

text \<open>
  C10. In every transformation controller reached from a fresh one by any sequence of
  state-changing calls, the target version is JDK17 and the source version is JDK8 or
  JDK11, hence never JDK17.
\<close>

theorem C10_reachable_versions:
  "TransformByQState_getTargetJDKVersion (TransformByQState_calls ks TransformByQState_new)
     = JDK17
   \<and> (TransformByQState_getSourceJDKVersion (TransformByQState_calls ks TransformByQState_new)
        = JDK8
      \<or> TransformByQState_getSourceJDKVersion (TransformByQState_calls ks TransformByQState_new)
        = JDK11)
   \<and> TransformByQState_getSourceJDKVersion (TransformByQState_calls ks TransformByQState_new)
       \<noteq> JDK17"
proof -
  have reach:
    "targetJDKVersion (TransformByQState_calls ks TransformByQState_new) = JDK17
     \<and> (sourceJDKVersion (TransformByQState_calls ks TransformByQState_new) = JDK8
        \<or> sourceJDKVersion (TransformByQState_calls ks TransformByQState_new) = JDK11)"
  proof (induction ks rule: rev_induct)
    case Nil
    show ?case by (simp add: TransformByQState_new_def)
  next
    case (snoc k ks)
    let ?before = "TransformByQState_calls ks TransformByQState_new"
    have step: "TransformByQState_calls (ks @ [c]) TransformByQState_new
                  = TransformByQState_call c ?before" for c
      by (simp add: TransformByQState_calls_append)
    show ?case
    proof (cases k)
      case (Call_transition t)
      show ?thesis
        using snoc.IH unfolding Call_transition step
        by (cases t) (simp_all add: TransformByQState_transition_defs)
    qed (use snoc.IH in \<open>simp_all add: step TransformByQState_setter_defs\<close>)
  qed
  then show ?thesis
    by (auto simp add: TransformByQState_getTargetJDKVersion_def
          TransformByQState_getSourceJDKVersion_def)
qed

end
